theory Spec2Isabelle
  imports Main "HOL-Library.Sublist"
begin

section \<open>JavaScript values used by the auth module\<close>

text \<open>
  The extension's numbers are identifiers, HTTP status codes and millisecond
  timestamps. They are modelled on the integers, together with the one
  non-integer value the code can produce itself: \<open>NaN\<close>, which \<open>parseInt\<close>
  returns for a string without digits. Integers stand for the doubles that
  represent them exactly; \<open>safe_integer\<close> is JavaScript's
  \<open>Number.isSafeInteger\<close> range, inside which decimal printing is exact.
  Strings are lists of code units below 256.
\<close>

datatype jsnum = Num int | NaN

fun truthy :: "jsnum \<Rightarrow> bool" where
  "truthy (Num n) = (n \<noteq> 0)"
| "truthy NaN = False"

fun js_add :: "jsnum \<Rightarrow> jsnum \<Rightarrow> jsnum" where
  "js_add (Num a) (Num b) = Num (a + b)"
| "js_add _ _ = NaN"

fun js_sub :: "jsnum \<Rightarrow> jsnum \<Rightarrow> jsnum" where
  "js_sub (Num a) (Num b) = Num (a - b)"
| "js_sub _ _ = NaN"

fun js_mul :: "jsnum \<Rightarrow> jsnum \<Rightarrow> jsnum" where
  "js_mul (Num a) (Num b) = Num (a * b)"
| "js_mul _ _ = NaN"

text \<open>\<open>a < b\<close> and \<open>a > b\<close>: every comparison with \<open>NaN\<close> is false.\<close>

fun js_less :: "jsnum \<Rightarrow> jsnum \<Rightarrow> bool" where
  "js_less (Num a) (Num b) = (a < b)"
| "js_less _ _ = False"

fun js_greater :: "jsnum \<Rightarrow> jsnum \<Rightarrow> bool" where
  "js_greater (Num a) (Num b) = (a > b)"
| "js_greater _ _ = False"

definition safe_integer :: "int \<Rightarrow> bool" where
  "safe_integer n = (\<bar>n\<bar> \<le> 9007199254740991)"

subsection \<open>\<open>Number.prototype.toString()\<close>\<close>

definition digit_char :: "nat \<Rightarrow> char" where
  "digit_char d = char_of (48 + d)"

fun nat_digits :: "nat \<Rightarrow> string" where
  "nat_digits n = (if n < 10 then [digit_char n]
                   else nat_digits (n div 10) @ [digit_char (n mod 10)])"

declare nat_digits.simps [simp del]

fun js_toString :: "jsnum \<Rightarrow> string" where
  "js_toString NaN = ''NaN''"
| "js_toString (Num n) =
     (if n < 0 then CHR ''-'' # nat_digits (nat (- n)) else nat_digits (nat n))"

subsection \<open>\<open>parseInt(s, 10)\<close>\<close>

text \<open>
  \<open>parseInt\<close> with radix 10 skips leading white space, reads an optional sign,
  then the longest run of decimal digits; what follows the digits is ignored,
  and no digit at all gives \<open>NaN\<close>.
\<close>

definition is_white_space :: "char \<Rightarrow> bool" where
  "is_white_space c = ((of_char c :: nat) \<in> {9, 10, 11, 12, 13, 32, 160})"

definition is_digit :: "char \<Rightarrow> bool" where
  "is_digit c = (48 \<le> (of_char c :: nat) \<and> (of_char c :: nat) \<le> 57)"

definition digit_value :: "char \<Rightarrow> nat" where
  "digit_value c = of_char c - 48"

definition digits_value :: "string \<Rightarrow> nat" where
  "digits_value z = foldl (\<lambda>acc c. 10 * acc + digit_value c) 0 z"

definition strip_sign :: "string \<Rightarrow> bool \<times> string" where
  "strip_sign t =
     (case t of
        [] \<Rightarrow> (False, [])
      | c # r \<Rightarrow> if c = CHR ''-'' then (True, r)
                 else if c = CHR ''+'' then (False, r)
                 else (False, c # r))"

definition parseInt :: "string \<Rightarrow> jsnum" where
  "parseInt s =
     (let t = dropWhile is_white_space s;
          negative = fst (strip_sign t);
          z = takeWhile is_digit (snd (strip_sign t))
      in if z = [] then NaN
         else if negative then Num (- int (digits_value z))
         else Num (int (digits_value z)))"

section \<open>Durable local storage\<close>

text \<open>
  \<open>LocalStorage\<close> is a key-value store; \<open>getItem\<close> of a key that is not set
  gives \<open>undefined\<close> (\<open>None\<close>), \<open>setItem\<close> overwrites and \<open>removeItem\<close>
  deletes. Every value this module stores is a string.
\<close>

type_synonym storage = "string \<rightharpoonup> string"

definition ACCESS_TOKEN :: string where
  "ACCESS_TOKEN = ''convex-access-token''"

definition TOKEN_EXPIRES_AT :: string where
  "TOKEN_EXPIRES_AT = ''convex-token-expires-at''"

definition REFRESH_TOKEN :: string where
  "REFRESH_TOKEN = ''convex-refresh-token''"

definition SELECTED_TEAM_ID :: string where
  "SELECTED_TEAM_ID = ''convex-selected-team-id''"

definition SELECTED_PROJECT_ID :: string where
  "SELECTED_PROJECT_ID = ''convex-selected-project-id''"

definition SELECTED_DEPLOYMENT_NAME :: string where
  "SELECTED_DEPLOYMENT_NAME = ''convex-selected-deployment-name''"

definition setItem :: "string \<Rightarrow> string \<Rightarrow> storage \<Rightarrow> storage" where
  "setItem k v st = st(k \<mapsto> v)"

definition removeItem :: "string \<Rightarrow> storage \<Rightarrow> storage" where
  "removeItem k st = st(k := None)"

definition getItem :: "string \<Rightarrow> storage \<Rightarrow> string option" where
  "getItem k st = st k"

section \<open>Session persistence\<close>

text \<open>\<open>ConvexSession\<close>; an optional member that is missing is \<open>None\<close>.\<close>

record session =
  accessToken :: string
  tokenType :: string
  expiresAt :: "jsnum option"
  refreshToken :: "string option"

definition saveSession :: "session \<Rightarrow> storage \<Rightarrow> storage" where
  "saveSession s st =
     (let st1 = setItem ACCESS_TOKEN (accessToken s) st;
          st2 = (case expiresAt s of
                   None \<Rightarrow> st1
                 | Some x \<Rightarrow> if truthy x
                             then setItem TOKEN_EXPIRES_AT (js_toString x) st1
                             else st1);
          st3 = (case refreshToken s of
                   None \<Rightarrow> st2
                 | Some r \<Rightarrow> if r \<noteq> [] then setItem REFRESH_TOKEN r st2 else st2)
      in st3)"

text \<open>\<open>str ? parseInt(str, 10) : undefined\<close> (or \<open>: null\<close>) for a stored string.\<close>

fun parse_stored :: "string option \<Rightarrow> jsnum option" where
  "parse_stored None = None"
| "parse_stored (Some str) = (if str \<noteq> [] then Some (parseInt str) else None)"

definition loadSession :: "storage \<Rightarrow> session option" where
  "loadSession st =
     (case getItem ACCESS_TOKEN st of
        None \<Rightarrow> None
      | Some token \<Rightarrow>
          if token = [] then None
          else Some \<lparr> accessToken = token,
                      tokenType = ''Bearer'',
                      expiresAt = parse_stored (getItem TOKEN_EXPIRES_AT st),
                      refreshToken = getItem REFRESH_TOKEN st \<rparr>)"

text \<open>
  \<open>clearSession\<close> removes all six keys; the removals are independent of one
  another, so the order in which \<open>Promise.all\<close> settles them does not matter.
\<close>

definition clearSession :: "storage \<Rightarrow> storage" where
  "clearSession st =
     removeItem SELECTED_DEPLOYMENT_NAME
       (removeItem SELECTED_PROJECT_ID
         (removeItem SELECTED_TEAM_ID
           (removeItem REFRESH_TOKEN
             (removeItem TOKEN_EXPIRES_AT
               (removeItem ACCESS_TOKEN st)))))"

text \<open>\<open>isSessionExpired\<close>, with the value of \<open>Date.now()\<close> as a parameter.\<close>

definition isSessionExpired :: "int \<Rightarrow> session \<Rightarrow> bool" where
  "isSessionExpired now s =
     (case expiresAt s of
        None \<Rightarrow> False
      | Some x \<Rightarrow>
          if \<not> truthy x then False
          else js_greater (Num now) (js_sub x (Num (5 * 60 * 1000))))"

section \<open>Selected project and deployment\<close>

text \<open>\<open>SelectedContext\<close>; \<open>null\<close> is \<open>None\<close>.\<close>

record selected_context =
  teamId :: "jsnum option"
  projectId :: "jsnum option"
  deploymentName :: "string option"

definition saveSelectedContext :: "selected_context \<Rightarrow> storage \<Rightarrow> storage" where
  "saveSelectedContext c st =
     (let st1 = (case teamId c of
                   None \<Rightarrow> st
                 | Some t \<Rightarrow> if truthy t
                             then setItem SELECTED_TEAM_ID (js_toString t) st
                             else st);
          st2 = (case projectId c of
                   None \<Rightarrow> st1
                 | Some p \<Rightarrow> if truthy p
                             then setItem SELECTED_PROJECT_ID (js_toString p) st1
                             else st1);
          st3 = (case deploymentName c of
                   None \<Rightarrow> st2
                 | Some d \<Rightarrow> if d \<noteq> []
                             then setItem SELECTED_DEPLOYMENT_NAME d st2
                             else st2)
      in st3)"

definition loadSelectedContext :: "storage \<Rightarrow> selected_context" where
  "loadSelectedContext st =
     (let teamIdStr = getItem SELECTED_TEAM_ID st;
          projectIdStr = getItem SELECTED_PROJECT_ID st;
          name = getItem SELECTED_DEPLOYMENT_NAME st
      in \<lparr> teamId = parse_stored teamIdStr,
           projectId = parse_stored projectIdStr,
           deploymentName = name \<rparr>)"

section \<open>The OAuth device flow\<close>

subsection \<open>Messages\<close>

text \<open>
  \<open>DeviceAuthResponse\<close>. The interface declares \<open>interval\<close> a number; a
  response that advertises none leaves it \<open>undefined\<close> (\<open>None\<close>).
\<close>

record device_auth_response =
  device_code :: string
  user_code :: string
  verification_uri :: string
  verification_uri_complete :: string
  expires_in :: jsnum
  interval :: "jsnum option"

text \<open>\<open>TokenResponse\<close> (its \<open>expires_in\<close> is \<open>token_expires_in\<close> here).\<close>

record token_response =
  access_token :: string
  token_type :: string
  token_expires_in :: "jsnum option"
  refresh_token :: "string option"

record auth_endpoints =
  device_authorization_endpoint :: string
  token_endpoint :: string

text \<open>The JSON body that \<open>/api/authorize\<close> answers with.\<close>

record authorize_data =
  data_accessToken :: string
  data_tokenType :: "string option"
  data_expiresAt :: "jsnum option"
  data_refreshToken :: "string option"

text \<open>
  What a \<open>fetch\<close> gives: a response with \<open>response.ok\<close> and its parsed body,
  a response that is not ok with its status and what the caller reads from its
  body (the \<open>error\<close> member of the JSON body at the token endpoint, the body
  text elsewhere; \<open>None\<close> when reading the body fails or the member is
  missing), or a rejected promise with the message of its error.
\<close>

datatype 'a reply = Reply_Ok 'a | Reply_Fail int "string option" | Rejected string

text \<open>One constructor for each \<open>throw\<close> of the module, and its message.\<close>

datatype error =
    Discovery_Failed int
  | Device_Authorization_Failed int string
  | Authentication_Expired
  | Authentication_Denied
  | Authentication_Failed string
  | Expired_Or_Cancelled
  | Authorize_Failed int string
  | External_Failure string

fun error_message :: "error \<Rightarrow> string" where
  "error_message (Discovery_Failed status) =
     ''Failed to discover auth configuration: '' @ js_toString (Num status)"
| "error_message (Device_Authorization_Failed status errorText) =
     ''Failed to start device authorization: '' @ js_toString (Num status) @ '' '' @ errorText"
| "error_message Authentication_Expired = ''Authentication expired. Please try again.''"
| "error_message Authentication_Denied = ''Authentication was denied.''"
| "error_message (Authentication_Failed what) = ''Authentication failed: '' @ what"
| "error_message Expired_Or_Cancelled = ''Authentication expired or cancelled''"
| "error_message (Authorize_Failed status errorText) =
     ''Failed to authorize with Convex: '' @ js_toString (Num status) @ '' '' @ errorText"
| "error_message (External_Failure m) = m"

subsection \<open>The world outside\<close>

text \<open>
  The effects of the flow, in the order they happen, and the toast shown to
  the user.
\<close>

datatype event =
    Get_Config
  | Post_Device_Authorization string
  | Open_Browser string
  | Stop_Check bool
  | On_Poll
  | Post_Token string string
  | Set_Timeout jsnum
  | Post_Authorize string

datatype style = Animated | Success | Failure

record toast =
  toast_style :: style
  toast_title :: string
  toast_message :: "string option"

record world =
  clock_reads :: nat
  config_fetches :: nat
  token_requests :: nat
  stop_calls :: nat
  trace :: "event list"
  shown_toast :: "toast option"

text \<open>
  The environment answers every effect: the value of the \<open>k\<close>-th call of
  \<open>Date.now()\<close>, the reply to the \<open>k\<close>-th fetch of the well-known
  configuration and to the \<open>k\<close>-th token request, and the replies to the
  calls made once. How long a timer or a request takes shows in the clock
  readings only, so any timer behaviour is one of these environments.
\<close>

record env =
  now_at :: "nat \<Rightarrow> int"
  config_reply :: "nat \<Rightarrow> auth_endpoints reply"
  device_reply :: "device_auth_response reply"
  token_reply :: "nat \<Rightarrow> token_response reply"
  open_reply :: "string option"
  authorize_reply :: "authorize_data reply"

definition world0 :: world where
  "world0 = \<lparr> clock_reads = 0, config_fetches = 0, token_requests = 0,
              stop_calls = 0, trace = [], shown_toast = None \<rparr>"

definition log_event :: "event \<Rightarrow> world \<Rightarrow> world" where
  "log_event ev w = w\<lparr> trace := trace w @ [ev] \<rparr>"

definition date_now :: "env \<Rightarrow> world \<Rightarrow> int \<times> world" where
  "date_now e w = (now_at e (clock_reads w), w\<lparr> clock_reads := Suc (clock_reads w) \<rparr>)"

definition fetch_config :: "env \<Rightarrow> world \<Rightarrow> auth_endpoints reply \<times> world" where
  "fetch_config e w =
     (config_reply e (config_fetches w),
      log_event Get_Config (w\<lparr> config_fetches := Suc (config_fetches w) \<rparr>))"

definition fetch_token :: "env \<Rightarrow> string \<Rightarrow> string \<Rightarrow> world \<Rightarrow> token_response reply \<times> world" where
  "fetch_token e endpoint code w =
     (token_reply e (token_requests w),
      log_event (Post_Token endpoint code) (w\<lparr> token_requests := Suc (token_requests w) \<rparr>))"

text \<open>\<open>shouldStop?.()\<close> and \<open>onPoll?.()\<close>: a callback that is not given is not called.\<close>

definition call_should_stop :: "(nat \<Rightarrow> bool) option \<Rightarrow> world \<Rightarrow> bool \<times> world" where
  "call_should_stop shouldStop w =
     (case shouldStop of
        None \<Rightarrow> (False, w)
      | Some f \<Rightarrow> (f (stop_calls w),
                   log_event (Stop_Check (f (stop_calls w)))
                     (w\<lparr> stop_calls := Suc (stop_calls w) \<rparr>)))"

definition call_on_poll :: "bool \<Rightarrow> world \<Rightarrow> world" where
  "call_on_poll onPoll w = (if onPoll then log_event On_Poll w else w)"

definition set_timeout :: "jsnum \<Rightarrow> world \<Rightarrow> world" where
  "set_timeout delay w = log_event (Set_Timeout delay) w"

subsection \<open>Endpoint discovery and the device authorization request\<close>

definition discoverAuthEndpoints :: "env \<Rightarrow> world \<Rightarrow> (error + auth_endpoints) \<times> world" where
  "discoverAuthEndpoints e w =
     (case fetch_config e w of
        (Reply_Ok config, w1) \<Rightarrow> (Inr config, w1)
      | (Reply_Fail status body, w1) \<Rightarrow> (Inl (Discovery_Failed status), w1)
      | (Rejected m, w1) \<Rightarrow> (Inl (External_Failure m), w1))"

text \<open>\<open>await response.text().catch(() => "Unknown error")\<close>\<close>

fun text_or_unknown :: "string option \<Rightarrow> string" where
  "text_or_unknown None = ''Unknown error''"
| "text_or_unknown (Some body) = body"

definition startDeviceAuthorization ::
  "env \<Rightarrow> world \<Rightarrow> (error + device_auth_response) \<times> world" where
  "startDeviceAuthorization e w =
     (case discoverAuthEndpoints e w of
        (Inl err, w1) \<Rightarrow> (Inl err, w1)
      | (Inr config, w1) \<Rightarrow>
          (let w2 = log_event (Post_Device_Authorization
                                 (device_authorization_endpoint config)) w1
           in case device_reply e of
                Reply_Ok auth \<Rightarrow> (Inr auth, w2)
              | Reply_Fail status body \<Rightarrow>
                  (Inl (Device_Authorization_Failed status (text_or_unknown body)), w2)
              | Rejected m \<Rightarrow> (Inl (External_Failure m), w2)))"

subsection \<open>Polling the token endpoint\<close>

text \<open>\<open>auth.interval || 5\<close>\<close>

fun interval_or_default :: "jsnum option \<Rightarrow> jsnum" where
  "interval_or_default None = Num 5"
| "interval_or_default (Some x) = (if truthy x then x else Num 5)"

text \<open>\<open>error || response.status\<close> inside the message of the last \<open>throw\<close>.\<close>

fun error_or_status :: "string option \<Rightarrow> int \<Rightarrow> string" where
  "error_or_status None status = js_toString (Num status)"
| "error_or_status (Some err) status = (if err \<noteq> [] then err else js_toString (Num status))"

text \<open>
  The \<open>while\<close> loop of \<open>pollForDeviceToken\<close>. Nothing bounds the number of
  its iterations but the clock, so the loop is a partial function: \<open>None\<close> is
  the run that never returns. A returned \<open>Inr None\<close> is \<open>null\<close>.
\<close>

partial_function (option) poll_loop ::
  "env \<Rightarrow> string \<Rightarrow> string \<Rightarrow> bool \<Rightarrow> (nat \<Rightarrow> bool) option \<Rightarrow> jsnum \<Rightarrow> jsnum \<Rightarrow> world
     \<Rightarrow> ((error + token_response option) \<times> world) option"
where
  "poll_loop e endpoint code onPoll shouldStop pollInterval expires_at w =
     (case date_now e w of (now, w1) \<Rightarrow>
        if \<not> js_less (Num now) expires_at then Some (Inr None, w1)
        else
          (case call_should_stop shouldStop w1 of (stop, w2) \<Rightarrow>
             if stop then Some (Inr None, w2)
             else
               (case fetch_token e endpoint code (call_on_poll onPoll w2) of
                  (Reply_Ok tokens, w3) \<Rightarrow> Some (Inr (Some tokens), w3)
                | (Rejected m, w3) \<Rightarrow> Some (Inl (External_Failure m), w3)
                | (Reply_Fail status err, w3) \<Rightarrow>
                    if err = Some ''authorization_pending'' \<or> err = Some ''slow_down''
                    then poll_loop e endpoint code onPoll shouldStop pollInterval expires_at
                           (set_timeout pollInterval w3)
                    else if err = Some ''expired_token''
                    then Some (Inl Authentication_Expired, w3)
                    else if err = Some ''access_denied''
                    then Some (Inl Authentication_Denied, w3)
                    else Some (Inl (Authentication_Failed (error_or_status err status)), w3))))"

declare poll_loop.simps [code]

definition pollForDeviceToken ::
  "env \<Rightarrow> device_auth_response \<Rightarrow> bool \<Rightarrow> (nat \<Rightarrow> bool) option \<Rightarrow> world
     \<Rightarrow> ((error + token_response option) \<times> world) option" where
  "pollForDeviceToken e auth onPoll shouldStop w =
     (case discoverAuthEndpoints e w of
        (Inl err, w1) \<Rightarrow> Some (Inl err, w1)
      | (Inr config, w1) \<Rightarrow>
          (let pollInterval = js_mul (interval_or_default (interval auth)) (Num 1000)
           in case date_now e w1 of (now, w2) \<Rightarrow>
                poll_loop e (token_endpoint config) (device_code auth) onPoll shouldStop
                  pollInterval (js_add (Num now) (js_mul (expires_in auth) (Num 1000))) w2))"

subsection \<open>Exchange for a dashboard session\<close>

definition exchangeForDashboardToken ::
  "env \<Rightarrow> string \<Rightarrow> world \<Rightarrow> (error + session) \<times> world" where
  "exchangeForDashboardToken e oidcToken w =
     (let w1 = log_event (Post_Authorize oidcToken) w
      in case authorize_reply e of
           Reply_Fail status body \<Rightarrow> (Inl (Authorize_Failed status (text_or_unknown body)), w1)
         | Rejected m \<Rightarrow> (Inl (External_Failure m), w1)
         | Reply_Ok data \<Rightarrow>
             (case (case data_expiresAt data of
                      None \<Rightarrow> (None, w1)
                    | Some x \<Rightarrow>
                        if truthy x
                        then (case date_now e w1 of (now, w2) \<Rightarrow>
                                (Some (js_add (Num now) (js_mul x (Num 1000))), w2))
                        else (None, w1))
              of (expiry, w2) \<Rightarrow>
                (Inr \<lparr> accessToken = data_accessToken data,
                       tokenType = (case data_tokenType data of
                                      None \<Rightarrow> ''Bearer'' | Some t \<Rightarrow> t),
                       expiresAt = expiry,
                       refreshToken = data_refreshToken data \<rparr>, w2)))"

subsection \<open>The full flow\<close>

definition show_toast :: "toast \<Rightarrow> world \<Rightarrow> world" where
  "show_toast t w = w\<lparr> shown_toast := Some t \<rparr>"

definition update_toast :: "(toast \<Rightarrow> toast) \<Rightarrow> world \<Rightarrow> world" where
  "update_toast f w = w\<lparr> shown_toast := map_option f (shown_toast w) \<rparr>"

text \<open>The \<open>try\<close> block of \<open>authenticate\<close>; an \<open>Inl\<close> is the error it throws.\<close>

definition authenticate_try ::
  "env \<Rightarrow> world \<Rightarrow> storage \<Rightarrow> ((error + session) \<times> world \<times> storage) option" where
  "authenticate_try e w st =
     (case startDeviceAuthorization e w of
        (Inl err, w1) \<Rightarrow> Some (Inl err, w1, st)
      | (Inr deviceAuth, w1) \<Rightarrow>
          (let w2 = update_toast (\<lambda>t. t\<lparr> toast_style := Animated,
                                         toast_title := ''Waiting for authentication'',
                                         toast_message := Some (''Code: '' @ user_code deviceAuth) \<rparr>) w1;
               w3 = log_event (Open_Browser (verification_uri_complete deviceAuth)) w2
           in case open_reply e of
                Some m \<Rightarrow> Some (Inl (External_Failure m), w3, st)
              | None \<Rightarrow>
                  (case pollForDeviceToken e deviceAuth False None w3 of
                     None \<Rightarrow> None
                   | Some (Inl err, w4) \<Rightarrow> Some (Inl err, w4, st)
                   | Some (Inr None, w4) \<Rightarrow> Some (Inl Expired_Or_Cancelled, w4, st)
                   | Some (Inr (Some tokens), w4) \<Rightarrow>
                       (let w5 = update_toast (\<lambda>t. t\<lparr> toast_title := ''Completing authentication...'',
                                                      toast_message := None \<rparr>) w4
                        in case exchangeForDashboardToken e (access_token tokens) w5 of
                             (Inl err, w6) \<Rightarrow> Some (Inl err, w6, st)
                           | (Inr session, w6) \<Rightarrow>
                               Some (Inr session,
                                     update_toast (\<lambda>t. t\<lparr> toast_style := Success,
                                                          toast_title := ''Authenticated successfully'' \<rparr>) w6,
                                     saveSession session st)))))"

text \<open>\<open>authenticate\<close>: the toast, the \<open>try\<close> block, and the \<open>catch\<close> that rethrows.\<close>

definition authenticate ::
  "env \<Rightarrow> world \<Rightarrow> storage \<Rightarrow> ((error + session) \<times> world \<times> storage) option" where
  "authenticate e w st =
     (let w0 = show_toast \<lparr> toast_style = Animated,
                            toast_title = ''Starting authentication...'',
                            toast_message = None \<rparr> w
      in case authenticate_try e w0 st of
           None \<Rightarrow> None
         | Some (Inr session, w1, st1) \<Rightarrow> Some (Inr session, w1, st1)
         | Some (Inl err, w1, st1) \<Rightarrow>
             Some (Inl err,
                   update_toast (\<lambda>t. t\<lparr> toast_style := Failure,
                                        toast_title := ''Authentication failed'',
                                        toast_message := Some (error_message err) \<rparr>) w1,
                   st1))"

section \<open>The log list\<close>

text \<open>
  Modelled from the spec: the type \<open>LogEntry\<close>, declared in
  \<open>hooks/useConvexData\<close>. The members that the filter reads are strings; the
  other members of an entry are the record's extension.
\<close>

record log_entry =
  log_id :: string
  functionPath :: string
  functionType :: string
  status :: string
  requestId :: string

text \<open>\<open>toLowerCase\<close> on code units below 256, and \<open>includes\<close> (\<open>includes_str\<close> here).\<close>

definition lower_char :: "char \<Rightarrow> char" where
  "lower_char c =
     (let n = (of_char c :: nat)
      in if (65 \<le> n \<and> n \<le> 90) \<or> (192 \<le> n \<and> n \<le> 222 \<and> n \<noteq> 215)
         then char_of (n + 32) else c)"

definition toLowerCase :: "string \<Rightarrow> string" where
  "toLowerCase s = map lower_char s"

fun includes_str :: "string \<Rightarrow> string \<Rightarrow> bool" where
  "includes_str [] search = (search = [])"
| "includes_str (c # cs) search = (prefix search (c # cs) \<or> includes_str cs search)"

text \<open>The callback of \<open>logs.filter\<close> in \<open>ViewLogsCommand\<close>, and the filter.\<close>

definition log_matches :: "string \<Rightarrow> 'a log_entry_scheme \<Rightarrow> bool" where
  "log_matches searchText log =
     (if searchText = [] then True
      else (let search = toLowerCase searchText
            in includes_str (toLowerCase (functionPath log)) search
             \<or> includes_str (toLowerCase (requestId log)) search
             \<or> includes_str (toLowerCase (status log)) search
             \<or> includes_str (toLowerCase (functionType log)) search))"

definition filteredLogs :: "'a log_entry_scheme list \<Rightarrow> string \<Rightarrow> 'a log_entry_scheme list" where
  "filteredLogs logs searchText = filter (log_matches searchText) logs"

section \<open>Runs of the polling loop\<close>

text \<open>
  Vocabulary for statements about runs: the answer of the \<open>k\<close>-th call of
  \<open>shouldStop\<close> (false when no callback is given), the replies after which
  the loop waits and polls again, the world after the token request of one
  iteration and after the wait that follows it, and the events of one
  iteration up to its request when the stop check answers false.
\<close>

definition stop_answer :: "(nat \<Rightarrow> bool) option \<Rightarrow> nat \<Rightarrow> bool" where
  "stop_answer shouldStop k = (case shouldStop of None \<Rightarrow> False | Some f \<Rightarrow> f k)"

definition is_retry :: "token_response reply \<Rightarrow> bool" where
  "is_retry r =
     (case r of
        Reply_Fail code err \<Rightarrow> err = Some ''authorization_pending'' \<or> err = Some ''slow_down''
      | _ \<Rightarrow> False)"

definition request_world ::
  "env \<Rightarrow> string \<Rightarrow> string \<Rightarrow> bool \<Rightarrow> (nat \<Rightarrow> bool) option \<Rightarrow> world \<Rightarrow> world" where
  "request_world e endpoint code onPoll shouldStop w =
     snd (fetch_token e endpoint code
            (call_on_poll onPoll (snd (call_should_stop shouldStop (snd (date_now e w))))))"

definition retry_world ::
  "env \<Rightarrow> string \<Rightarrow> string \<Rightarrow> bool \<Rightarrow> (nat \<Rightarrow> bool) option \<Rightarrow> jsnum \<Rightarrow> world \<Rightarrow> world" where
  "retry_world e endpoint code onPoll shouldStop pollInterval w =
     set_timeout pollInterval (request_world e endpoint code onPoll shouldStop w)"

definition request_events :: "bool \<Rightarrow> (nat \<Rightarrow> bool) option \<Rightarrow> string \<Rightarrow> string \<Rightarrow> event list" where
  "request_events onPoll shouldStop endpoint code =
     (case shouldStop of None \<Rightarrow> [] | Some f \<Rightarrow> [Stop_Check False])
     @ (if onPoll then [On_Poll] else [])
     @ [Post_Token endpoint code]"

definition stop_count :: "(nat \<Rightarrow> bool) option \<Rightarrow> nat \<Rightarrow> nat" where
  "stop_count shouldStop k = (case shouldStop of None \<Rightarrow> 0 | Some f \<Rightarrow> k)"

text \<open>
  The world at the head of the loop when \<open>pollForDeviceToken\<close>, started in
  \<open>world0\<close>, has found the endpoints, read the clock once and gone through
  \<open>k\<close> iterations that were answered \<open>authorization_pending\<close> or
  \<open>slow_down\<close>.
\<close>

definition polling_world ::
  "bool \<Rightarrow> (nat \<Rightarrow> bool) option \<Rightarrow> string \<Rightarrow> string \<Rightarrow> jsnum \<Rightarrow> nat \<Rightarrow> world" where
  "polling_world onPoll shouldStop endpoint code pollInterval k =
     \<lparr> clock_reads = Suc k, config_fetches = 1, token_requests = k,
       stop_calls = stop_count shouldStop k,
       trace = Get_Config #
         concat (replicate k (request_events onPoll shouldStop endpoint code
                              @ [Set_Timeout pollInterval])),
       shown_toast = None \<rparr>"

subsection \<open>The discipline of the stop check\<close>

text \<open>
  An automaton that reads a trace. It accepts a token request only straight
  after one stop check that answered false (with at most the \<open>onPoll\<close>
  callback in between), one check per request, and nothing at all after a
  check that answered true.
\<close>

datatype guard = Idle | Armed | Stopped | Broken

fun guard_step :: "guard \<Rightarrow> event \<Rightarrow> guard" where
  "guard_step Idle (Stop_Check b) = (if b then Stopped else Armed)"
| "guard_step Armed On_Poll = Armed"
| "guard_step Armed (Post_Token endpoint code) = Idle"
| "guard_step Idle (Set_Timeout delay) = Idle"
| "guard_step Idle Get_Config = Idle"
| "guard_step _ _ = Broken"

definition guard_run :: "event list \<Rightarrow> guard" where
  "guard_run evs = foldl guard_step Idle evs"

definition guard_final :: "(error + token_response option) \<times> world \<Rightarrow> bool" where
  "guard_final y =
     (guard_run (trace (snd y)) = Idle
      \<or> (guard_run (trace (snd y)) = Stopped \<and> fst y = Inr None))"

subsection \<open>Example environments\<close>

text \<open>
  A clock that stands at 0 for the first two readings and then advances by
  five seconds per reading, token endpoints that answer from a script, and a
  device authorization that lasts \<open>lifetime\<close> seconds with an advertised
  interval of five seconds.
\<close>

definition example_config :: auth_endpoints where
  "example_config =
     \<lparr> device_authorization_endpoint = ''https://auth.convex.dev/oauth/device/code'',
       token_endpoint = ''https://auth.convex.dev/oauth/token'' \<rparr>"

definition example_tokens :: token_response where
  "example_tokens =
     \<lparr> access_token = ''oidc-token'', token_type = ''Bearer'',
       token_expires_in = Some (Num 86400), refresh_token = None \<rparr>"

definition example_auth :: "int \<Rightarrow> device_auth_response" where
  "example_auth lifetime =
     \<lparr> device_code = ''device-code-1'', user_code = ''ABCD-EFGH'',
       verification_uri = ''https://auth.convex.dev/activate'',
       verification_uri_complete = ''https://auth.convex.dev/activate?user_code=ABCD-EFGH'',
       expires_in = Num lifetime, interval = Some (Num 5) \<rparr>"

definition example_data :: authorize_data where
  "example_data =
     \<lparr> data_accessToken = ''dashboard-token'', data_tokenType = None,
       data_expiresAt = None, data_refreshToken = None \<rparr>"

definition clock_5s :: "nat \<Rightarrow> int" where
  "clock_5s k = 5000 * int (k - 1)"

definition pending_twice_then_token :: "nat \<Rightarrow> token_response reply" where
  "pending_twice_then_token k =
     (if k < 2 then Reply_Fail 400 (Some ''authorization_pending'') else Reply_Ok example_tokens)"

definition always_pending :: "nat \<Rightarrow> token_response reply" where
  "always_pending k = Reply_Fail 400 (Some ''authorization_pending'')"

definition pending_then_error :: "string \<Rightarrow> nat \<Rightarrow> token_response reply" where
  "pending_then_error err k =
     (if k < 2 then Reply_Fail 400 (Some ''slow_down'') else Reply_Fail 400 (Some err))"

definition example_env :: "int \<Rightarrow> (nat \<Rightarrow> token_response reply) \<Rightarrow> env" where
  "example_env lifetime replies =
     \<lparr> now_at = clock_5s,
       config_reply = (\<lambda>k. Reply_Ok example_config),
       device_reply = Reply_Ok (example_auth lifetime),
       token_reply = replies,
       open_reply = None,
       authorize_reply = Reply_Ok example_data \<rparr>"

definition always_stop :: "nat \<Rightarrow> bool" where
  "always_stop k = True"

definition example_storage :: storage where
  "example_storage = [SELECTED_TEAM_ID \<mapsto> ''7'']"

section \<open>Printing and parsing numbers\<close>

lemma of_char_digit_char: "d < 10 \<Longrightarrow> (of_char (digit_char d) :: nat) = 48 + d"
  by (simp add: digit_char_def)

lemma is_digit_digit_char: "d < 10 \<Longrightarrow> is_digit (digit_char d)"
  by (simp add: is_digit_def of_char_digit_char)

lemma digit_value_digit_char: "d < 10 \<Longrightarrow> digit_value (digit_char d) = d"
  by (simp add: digit_value_def of_char_digit_char)

lemma nat_digits_all_digits: "c \<in> set (nat_digits n) \<Longrightarrow> is_digit c"
proof (induction n arbitrary: c rule: nat_digits.induct)
  case (1 n)
  show ?case
  proof (cases "n < 10")
    case True
    with "1.prems" show ?thesis
      by (simp add: nat_digits.simps [of n] is_digit_digit_char)
  next
    case False
    with "1.prems" "1.IH" show ?thesis
      by (auto simp add: nat_digits.simps [of n] is_digit_digit_char)
  qed
qed

lemma nat_digits_nonempty: "nat_digits n \<noteq> []"
  by (subst nat_digits.simps) simp

lemma digits_value_snoc: "digits_value (z @ [c]) = 10 * digits_value z + digit_value c"
  by (simp add: digits_value_def)

lemma digits_value_nat_digits: "digits_value (nat_digits n) = n"
proof (induction n rule: nat_digits.induct)
  case (1 n)
  show ?case
  proof (cases "n < 10")
    case True
    then show ?thesis
      by (simp add: nat_digits.simps [of n] digits_value_def digit_value_digit_char)
  next
    case False
    with "1.IH" show ?thesis
      by (simp add: nat_digits.simps [of n] digits_value_snoc digit_value_digit_char)
  qed
qed

lemma is_digit_not_white: "is_digit c \<Longrightarrow> \<not> is_white_space c"
  by (auto simp add: is_digit_def is_white_space_def)

lemma is_digit_not_sign: "is_digit c \<Longrightarrow> c \<noteq> CHR ''-'' \<and> c \<noteq> CHR ''+''"
  by (auto simp add: is_digit_def)

lemma takeWhile_nat_digits: "takeWhile is_digit (nat_digits n) = nat_digits n"
  by (simp add: nat_digits_all_digits)

lemma dropWhile_nat_digits: "dropWhile is_white_space (nat_digits n) = nat_digits n"
proof (cases "nat_digits n")
  case Nil
  then show ?thesis by simp
next
  case (Cons c cs)
  then have "is_digit c" using nat_digits_all_digits [of c n] by simp
  with Cons show ?thesis by (simp add: is_digit_not_white)
qed

lemma strip_sign_nat_digits: "strip_sign (nat_digits n) = (False, nat_digits n)"
proof (cases "nat_digits n")
  case Nil
  then show ?thesis by (simp add: strip_sign_def)
next
  case (Cons c cs)
  then have "is_digit c" using nat_digits_all_digits [of c n] by simp
  with Cons show ?thesis using is_digit_not_sign [of c] by (simp add: strip_sign_def)
qed

text \<open>Parsing the decimal print of an integer gives the integer back.\<close>

lemma parseInt_toString: "parseInt (js_toString (Num n)) = Num n"
proof (cases "n < 0")
  case True
  have "\<not> is_white_space CHR ''-''" by (simp add: is_white_space_def)
  then show ?thesis using True
    by (simp add: parseInt_def strip_sign_def takeWhile_nat_digits nat_digits_nonempty
        digits_value_nat_digits)
next
  case False
  then show ?thesis
    by (simp add: parseInt_def dropWhile_nat_digits strip_sign_nat_digits
        takeWhile_nat_digits nat_digits_nonempty digits_value_nat_digits)
qed

lemma toString_nonempty: "js_toString x \<noteq> []"
  by (cases x) (simp_all add: nat_digits_nonempty)

lemma parse_stored_toString:
  "parse_stored (Some (js_toString (Num n))) = Some (Num n)"
  using toString_nonempty [of "Num n"] parseInt_toString [of n]
  by (simp del: js_toString.simps)

section \<open>Properties of the storage functions\<close>

lemma keys_distinct:
  "ACCESS_TOKEN \<noteq> TOKEN_EXPIRES_AT" "ACCESS_TOKEN \<noteq> REFRESH_TOKEN"
  "TOKEN_EXPIRES_AT \<noteq> ACCESS_TOKEN" "TOKEN_EXPIRES_AT \<noteq> REFRESH_TOKEN"
  "REFRESH_TOKEN \<noteq> ACCESS_TOKEN" "REFRESH_TOKEN \<noteq> TOKEN_EXPIRES_AT"
  "SELECTED_TEAM_ID \<noteq> SELECTED_PROJECT_ID" "SELECTED_TEAM_ID \<noteq> SELECTED_DEPLOYMENT_NAME"
  "SELECTED_PROJECT_ID \<noteq> SELECTED_TEAM_ID" "SELECTED_PROJECT_ID \<noteq> SELECTED_DEPLOYMENT_NAME"
  "SELECTED_DEPLOYMENT_NAME \<noteq> SELECTED_TEAM_ID" "SELECTED_DEPLOYMENT_NAME \<noteq> SELECTED_PROJECT_ID"
  by (simp_all add: ACCESS_TOKEN_def TOKEN_EXPIRES_AT_def REFRESH_TOKEN_def
      SELECTED_TEAM_ID_def SELECTED_PROJECT_ID_def SELECTED_DEPLOYMENT_NAME_def)

lemma getItem_setItem: "getItem k (setItem k' v st) = (if k = k' then Some v else getItem k st)"
  by (simp add: getItem_def setItem_def)

lemma getItem_removeItem: "getItem k (removeItem k' st) = (if k = k' then None else getItem k st)"
  by (simp add: getItem_def removeItem_def)

subsection \<open>Session expiry\<close>

text \<open>
  C5, as stated, fails for a session whose \<open>expiresAt\<close> is the number 0: the
  member is set and the current time exceeds it by far, yet the guard
  \<open>!session.expiresAt\<close> takes 0 for a missing expiry and the function answers
  false.
\<close>

theorem isSessionExpired_zero_counterexample:
  "expiresAt \<lparr> accessToken = ''tok'', tokenType = ''Bearer'',
               expiresAt = Some (Num 0), refreshToken = None \<rparr> = Some (Num 0)
   \<and> (1700000000000 :: int) > 0 - 300000
   \<and> \<not> isSessionExpired 1700000000000
         \<lparr> accessToken = ''tok'', tokenType = ''Bearer'',
           expiresAt = Some (Num 0), refreshToken = None \<rparr>"
  by (simp add: isSessionExpired_def)

text \<open>
  C5, amended: \<open>isSessionExpired\<close> returns true iff the session's
  \<open>expiresAt\<close> is a number other than 0 (and not \<open>NaN\<close>) and the current time
  exceeds \<open>expiresAt\<close> minus 300000 ms. In particular it returns true for every
  session whose non-zero \<open>expiresAt\<close> plus the margin lies in the past, and
  false for every session with no \<open>expiresAt\<close>.
\<close>

theorem isSessionExpired_iff:
  "(isSessionExpired now s \<longleftrightarrow>
      (\<exists>t. expiresAt s = Some (Num t) \<and> t \<noteq> 0 \<and> now > t - 300000))
   \<and> (expiresAt s = Some (Num t) \<and> t \<noteq> 0 \<and> t + 300000 < now \<longrightarrow> isSessionExpired now s)
   \<and> (expiresAt s = None \<longrightarrow> \<not> isSessionExpired now s)"
proof -
  have "isSessionExpired now s \<longleftrightarrow>
      (\<exists>t. expiresAt s = Some (Num t) \<and> t \<noteq> 0 \<and> now > t - 300000)"
  proof (cases "expiresAt s")
    case None
    then show ?thesis by (simp add: isSessionExpired_def)
  next
    case (Some x)
    then show ?thesis by (cases x) (simp_all add: isSessionExpired_def)
  qed
  then show ?thesis by auto
qed

theorem isSessionExpired_iff_witness:
  "isSessionExpired 1700000000000
     \<lparr> accessToken = ''tok'', tokenType = ''Bearer'',
       expiresAt = Some (Num 1600000000000), refreshToken = None \<rparr>
   \<and> \<not> isSessionExpired 1700000000000
     \<lparr> accessToken = ''tok'', tokenType = ''Bearer'',
       expiresAt = None, refreshToken = None \<rparr>"
  using isSessionExpired_iff [of 1700000000000
      "\<lparr> accessToken = ''tok'', tokenType = ''Bearer'',
         expiresAt = Some (Num 1600000000000), refreshToken = None \<rparr>" 1600000000000]
    isSessionExpired_iff [of 1700000000000
      "\<lparr> accessToken = ''tok'', tokenType = ''Bearer'',
         expiresAt = None, refreshToken = None \<rparr>" 0]
  by simp

subsection \<open>Sign-out\<close>

text \<open>
  C7: after \<open>clearSession\<close> each of the six storage keys is absent, whatever
  was stored before; \<open>loadSession\<close> then returns \<open>null\<close> and
  \<open>loadSelectedContext\<close> a context whose three members are \<open>null\<close>.
\<close>

theorem clearSession_clears_all:
  "getItem ACCESS_TOKEN (clearSession st) = None
   \<and> getItem TOKEN_EXPIRES_AT (clearSession st) = None
   \<and> getItem REFRESH_TOKEN (clearSession st) = None
   \<and> getItem SELECTED_TEAM_ID (clearSession st) = None
   \<and> getItem SELECTED_PROJECT_ID (clearSession st) = None
   \<and> getItem SELECTED_DEPLOYMENT_NAME (clearSession st) = None
   \<and> loadSession (clearSession st) = None
   \<and> loadSelectedContext (clearSession st)
       = \<lparr> teamId = None, projectId = None, deploymentName = None \<rparr>"
  by (simp add: clearSession_def loadSession_def loadSelectedContext_def getItem_removeItem)

subsection \<open>The selected context\<close>

text \<open>
  A context whose three members are all set (identifiers other than 0, a name
  that is not empty) is read back as it was saved, over any earlier storage.
\<close>

lemma saveSelectedContext_roundtrip:
  assumes "t \<noteq> 0" and "p \<noteq> 0" and "d \<noteq> []"
  shows "loadSelectedContext
           (saveSelectedContext
              \<lparr> teamId = Some (Num t), projectId = Some (Num p), deploymentName = Some d \<rparr> st)
         = \<lparr> teamId = Some (Num t), projectId = Some (Num p), deploymentName = Some d \<rparr>"
  using assms
  by (simp add: saveSelectedContext_def loadSelectedContext_def getItem_setItem keys_distinct
      parse_stored_toString del: js_toString.simps parse_stored.simps)

text \<open>
  C8 does not hold of the code when a member is \<open>null\<close>. Selecting team 5
  after team 1, project 2 and deployment \<open>dev\<close> were stored saves the context
  \<open>{teamId: 5, projectId: null, deploymentName: null}\<close>, as
  \<open>handleSelectTeam\<close> builds it; \<open>saveSelectedContext\<close> skips the two
  \<open>null\<close> members instead of removing their keys, and the next load returns
  team 5 together with project 2 and deployment \<open>dev\<close> of the other team.
\<close>

theorem saveSelectedContext_null_keeps_stale:
  "loadSelectedContext
     (saveSelectedContext \<lparr> teamId = Some (Num 5), projectId = None, deploymentName = None \<rparr>
        (saveSelectedContext
           \<lparr> teamId = Some (Num 1), projectId = Some (Num 2), deploymentName = Some ''dev'' \<rparr>
           Map.empty))
   = \<lparr> teamId = Some (Num 5), projectId = Some (Num 2), deploymentName = Some ''dev'' \<rparr>"
  by (simp add: saveSelectedContext_def loadSelectedContext_def getItem_setItem keys_distinct
      parse_stored_toString del: js_toString.simps parse_stored.simps)

subsection \<open>Saving a session without an expiry\<close>

text \<open>
  C9, as stated, fails for a session whose access token is the empty string:
  the expiry key of the older session is kept, but \<open>loadSession\<close> takes the
  empty token for a missing one and returns \<open>null\<close>, not a session.
\<close>

theorem saveSession_empty_token_counterexample:
  "expiresAt \<lparr> accessToken = [], tokenType = ''Bearer'', expiresAt = None, refreshToken = None \<rparr> = None
   \<and> loadSession
       (saveSession \<lparr> accessToken = [], tokenType = ''Bearer'', expiresAt = None, refreshToken = None \<rparr>
          (saveSession \<lparr> accessToken = ''old'', tokenType = ''Bearer'',
                         expiresAt = Some (Num 1700000000000), refreshToken = None \<rparr> Map.empty))
     = None"
  by (simp add: saveSession_def loadSession_def getItem_setItem keys_distinct
      del: js_toString.simps)

text \<open>
  C9, amended: \<open>saveSession\<close> writes the token-expiry (resp. refresh-token)
  key only when the session has an \<open>expiresAt\<close> (resp. \<open>refreshToken\<close>): for
  every session \<open>s\<close> with \<open>expiresAt\<close> undefined, \<open>saveSession s\<close> leaves the
  stored token-expiry key unchanged, and when the access token of \<open>s\<close> is not
  empty, a subsequent \<open>loadSession\<close> returns a session that combines the new
  access token with the \<open>expiresAt\<close> of the session \<open>old\<close> saved before (a
  safe integer other than 0).
\<close>

theorem saveSession_keeps_expiry:
  assumes "expiresAt s = None"
  shows "getItem TOKEN_EXPIRES_AT (saveSession s st) = getItem TOKEN_EXPIRES_AT st
     \<and> (refreshToken s = None \<longrightarrow>
          getItem REFRESH_TOKEN (saveSession s st) = getItem REFRESH_TOKEN st)
     \<and> (accessToken s \<noteq> [] \<and> expiresAt old = Some (Num t) \<and> t \<noteq> 0 \<and> safe_integer t \<longrightarrow>
          (\<exists>r. loadSession (saveSession s (saveSession old st0))
                 = Some \<lparr> accessToken = accessToken s, tokenType = ''Bearer'',
                          expiresAt = Some (Num t), refreshToken = r \<rparr>))"
  using assms
  by (auto simp add: saveSession_def loadSession_def getItem_setItem keys_distinct Let_def
      parse_stored_toString split: option.splits
      simp del: js_toString.simps parse_stored.simps)

theorem saveSession_keeps_expiry_witness:
  "getItem TOKEN_EXPIRES_AT
     (saveSession \<lparr> accessToken = ''new'', tokenType = ''Bearer'',
                    expiresAt = None, refreshToken = None \<rparr> Map.empty)
   = getItem TOKEN_EXPIRES_AT Map.empty
   \<and> (\<exists>r. loadSession
            (saveSession \<lparr> accessToken = ''new'', tokenType = ''Bearer'',
                           expiresAt = None, refreshToken = None \<rparr>
               (saveSession \<lparr> accessToken = ''old'', tokenType = ''Bearer'',
                              expiresAt = Some (Num 1700000000000),
                              refreshToken = Some ''r1'' \<rparr> Map.empty))
          = Some \<lparr> accessToken = ''new'', tokenType = ''Bearer'',
                   expiresAt = Some (Num 1700000000000), refreshToken = r \<rparr>)"
  using saveSession_keeps_expiry
    [of "\<lparr> accessToken = ''new'', tokenType = ''Bearer'',
           expiresAt = None, refreshToken = None \<rparr>"
        Map.empty
        "\<lparr> accessToken = ''old'', tokenType = ''Bearer'',
           expiresAt = Some (Num 1700000000000), refreshToken = Some ''r1'' \<rparr>"
        1700000000000 Map.empty]
  by (simp add: safe_integer_def)

section \<open>Properties of the log filter\<close>

lemma includes_str_sublist: "includes_str s search \<longleftrightarrow> sublist search s"
  by (induction s) (simp_all add: sublist_Cons_right)

text \<open>
  C10: the filter keeps exactly the entries for which the lowercased search
  text is a substring of the lowercased \<open>functionPath\<close>, \<open>requestId\<close>,
  \<open>status\<close> or \<open>functionType\<close>, in the order of the fetched list; the empty
  search text keeps every entry. The filter is a function of the fetched
  list and the search text alone: it reads nothing else and fetches nothing.
\<close>

theorem filteredLogs_spec:
  "filteredLogs logs searchText
     = filter (\<lambda>log. sublist (toLowerCase searchText) (toLowerCase (functionPath log))
                   \<or> sublist (toLowerCase searchText) (toLowerCase (requestId log))
                   \<or> sublist (toLowerCase searchText) (toLowerCase (status log))
                   \<or> sublist (toLowerCase searchText) (toLowerCase (functionType log))) logs
   \<and> filteredLogs logs [] = logs
   \<and> subseq (filteredLogs logs searchText) logs"
proof -
  have m: "log_matches searchText log \<longleftrightarrow>
        (sublist (toLowerCase searchText) (toLowerCase (functionPath log))
       \<or> sublist (toLowerCase searchText) (toLowerCase (requestId log))
       \<or> sublist (toLowerCase searchText) (toLowerCase (status log))
       \<or> sublist (toLowerCase searchText) (toLowerCase (functionType log)))"
    for log :: "'a log_entry_scheme"
    by (simp add: log_matches_def includes_str_sublist toLowerCase_def Let_def)
  have "filteredLogs logs [] = logs"
    by (simp add: filteredLogs_def log_matches_def)
  moreover have "subseq (filteredLogs logs searchText) logs"
    by (simp add: filteredLogs_def)
  moreover have "filteredLogs logs searchText
     = filter (\<lambda>log. sublist (toLowerCase searchText) (toLowerCase (functionPath log))
                   \<or> sublist (toLowerCase searchText) (toLowerCase (requestId log))
                   \<or> sublist (toLowerCase searchText) (toLowerCase (status log))
                   \<or> sublist (toLowerCase searchText) (toLowerCase (functionType log))) logs"
    unfolding filteredLogs_def by (rule filter_cong) (simp_all add: m)
  ultimately show ?thesis by simp
qed

section \<open>Properties of the polling loop\<close>

subsection \<open>One iteration\<close>

lemma poll_loop_deadline:
  assumes "\<not> js_less (Num (now_at e (clock_reads w))) D"
  shows "poll_loop e endpoint code onPoll shouldStop p D w
         = Some (Inr None, w\<lparr> clock_reads := Suc (clock_reads w) \<rparr>)"
  using assms by (subst poll_loop.simps) (simp add: date_now_def)

lemma poll_loop_stopped:
  assumes "js_less (Num (now_at e (clock_reads w))) D"
    and "stop_answer shouldStop (stop_calls w)"
  shows "poll_loop e endpoint code onPoll shouldStop p D w
         = Some (Inr None,
                 log_event (Stop_Check True)
                   (w\<lparr> clock_reads := Suc (clock_reads w), stop_calls := Suc (stop_calls w) \<rparr>))"
  using assms
  by (subst poll_loop.simps)
     (auto simp add: date_now_def call_should_stop_def stop_answer_def split: option.splits)

lemma poll_loop_reply:
  assumes "js_less (Num (now_at e (clock_reads w))) D"
    and "\<not> stop_answer shouldStop (stop_calls w)"
  shows "poll_loop e endpoint code onPoll shouldStop p D w
         = (case token_reply e (token_requests w) of
              Reply_Ok tokens \<Rightarrow>
                Some (Inr (Some tokens), request_world e endpoint code onPoll shouldStop w)
            | Rejected m \<Rightarrow>
                Some (Inl (External_Failure m), request_world e endpoint code onPoll shouldStop w)
            | Reply_Fail sc err \<Rightarrow>
                if err = Some ''authorization_pending'' \<or> err = Some ''slow_down''
                then poll_loop e endpoint code onPoll shouldStop p D
                       (retry_world e endpoint code onPoll shouldStop p w)
                else if err = Some ''expired_token''
                then Some (Inl Authentication_Expired,
                           request_world e endpoint code onPoll shouldStop w)
                else if err = Some ''access_denied''
                then Some (Inl Authentication_Denied,
                           request_world e endpoint code onPoll shouldStop w)
                else Some (Inl (Authentication_Failed (error_or_status err sc)),
                           request_world e endpoint code onPoll shouldStop w))"
  using assms
  by (subst poll_loop.simps)
     (auto simp add: date_now_def call_should_stop_def stop_answer_def fetch_token_def
        call_on_poll_def log_event_def request_world_def retry_world_def
        split: option.splits reply.splits)

lemma request_world_polling:
  assumes "\<not> stop_answer shouldStop (stop_count shouldStop k)"
  shows "request_world e endpoint code onPoll shouldStop
           (polling_world onPoll shouldStop endpoint code p k)
         = (polling_world onPoll shouldStop endpoint code p k)
             \<lparr> clock_reads := Suc (Suc k), token_requests := Suc k,
               stop_calls := stop_count shouldStop (Suc k),
               trace := trace (polling_world onPoll shouldStop endpoint code p k)
                        @ request_events onPoll shouldStop endpoint code \<rparr>"
  using assms
  by (auto simp add: request_world_def polling_world_def date_now_def call_should_stop_def
      call_on_poll_def fetch_token_def log_event_def stop_answer_def stop_count_def
      request_events_def split: option.splits)

lemma retry_world_polling:
  assumes "\<not> stop_answer shouldStop (stop_count shouldStop k)"
  shows "retry_world e endpoint code onPoll shouldStop p
           (polling_world onPoll shouldStop endpoint code p k)
         = polling_world onPoll shouldStop endpoint code p (Suc k)"
  unfolding retry_world_def request_world_polling [OF assms]
  by (simp add: polling_world_def set_timeout_def log_event_def replicate_append_same [symmetric])

lemma poll_loop_retries:
  assumes "\<forall>i<k. js_less (Num (now_at e (Suc i))) D"
    and "\<forall>i<k. \<not> stop_answer shouldStop i"
    and "\<forall>i<k. is_retry (token_reply e i)"
  shows "poll_loop e endpoint code onPoll shouldStop p D
           (polling_world onPoll shouldStop endpoint code p 0)
         = poll_loop e endpoint code onPoll shouldStop p D
             (polling_world onPoll shouldStop endpoint code p k)"
  using assms
proof (induction k)
  case 0
  show ?case by simp
next
  case (Suc k)
  have clock: "js_less (Num (now_at e (clock_reads (polling_world onPoll shouldStop endpoint code p k)))) D"
    using Suc.prems(1) by (simp add: polling_world_def)
  have nostop: "\<not> stop_answer shouldStop (stop_count shouldStop k)"
    using Suc.prems(2) by (cases shouldStop) (simp_all add: stop_count_def stop_answer_def)
  then have nostop': "\<not> stop_answer shouldStop (stop_calls (polling_world onPoll shouldStop endpoint code p k))"
    by (simp add: polling_world_def)
  have retry: "is_retry (token_reply e (token_requests (polling_world onPoll shouldStop endpoint code p k)))"
    using Suc.prems(3) by (simp add: polling_world_def)
  have "poll_loop e endpoint code onPoll shouldStop p D
           (polling_world onPoll shouldStop endpoint code p 0)
        = poll_loop e endpoint code onPoll shouldStop p D
           (polling_world onPoll shouldStop endpoint code p k)"
    using Suc by simp
  also have "\<dots> = poll_loop e endpoint code onPoll shouldStop p D
           (retry_world e endpoint code onPoll shouldStop p
              (polling_world onPoll shouldStop endpoint code p k))"
    using retry
    by (subst poll_loop_reply [OF clock nostop'])
       (auto simp add: is_retry_def split: reply.splits)
  finally show ?case by (simp add: retry_world_polling [OF nostop])
qed

lemma pollForDeviceToken_start:
  assumes "config_reply e 0 = Reply_Ok config"
  shows "pollForDeviceToken e auth onPoll shouldStop world0
         = poll_loop e (token_endpoint config) (device_code auth) onPoll shouldStop
             (js_mul (interval_or_default (interval auth)) (Num 1000))
             (js_add (Num (now_at e 0)) (js_mul (expires_in auth) (Num 1000)))
             (polling_world onPoll shouldStop (token_endpoint config) (device_code auth)
                (js_mul (interval_or_default (interval auth)) (Num 1000)) 0)"
  using assms
  by (simp add: pollForDeviceToken_def discoverAuthEndpoints_def fetch_config_def world0_def
      log_event_def date_now_def polling_world_def stop_count_def split: option.splits)

subsection \<open>The stop check guards every token request\<close>

lemma guard_run_append: "guard_run (evs @ evs') = foldl guard_step (guard_run evs) evs'"
  by (simp add: guard_run_def)

lemma poll_loop_guarded:
  assumes "poll_loop e endpoint code onPoll shouldStop p D w = Some y"
  shows "shouldStop \<noteq> None \<longrightarrow> guard_run (trace w) = Idle \<longrightarrow> guard_final y"
proof (rule poll_loop.raw_induct
    [where P = "\<lambda>e endpoint code onPoll shouldStop p D w y.
                  shouldStop \<noteq> None \<longrightarrow> guard_run (trace w) = Idle \<longrightarrow> guard_final y",
     OF _ assms], goal_cases)
  case (1 loop ev ep dc op ss pi dl wd res)
  note ih = 1(1) and body = 1(2)
  show ?case
  proof (intro impI)
    assume some: "ss \<noteq> None" and idle: "guard_run (trace wd) = Idle"
    then obtain f where f: "ss = Some f" by auto
    show "guard_final res"
    proof (cases "js_less (Num (now_at ev (clock_reads wd))) dl")
      case False
      with body idle show ?thesis
        by (auto simp add: date_now_def guard_final_def)
    next
      case clock: True
      show ?thesis
      proof (cases "f (stop_calls wd)")
        case True
        with body idle clock f show ?thesis
          by (auto simp add: date_now_def call_should_stop_def log_event_def guard_final_def
              guard_run_append)
      next
        case False
        have armed: "guard_run (trace (request_world ev ep dc op ss wd)) = Idle"
          using idle f False
          by (auto simp add: request_world_def date_now_def call_should_stop_def
              call_on_poll_def fetch_token_def log_event_def guard_run_append)
        have rw: "fetch_token ev ep dc
                   (call_on_poll op (snd (call_should_stop ss (snd (date_now ev wd)))))
                  = (token_reply ev (token_requests wd), request_world ev ep dc op ss wd)"
          using f
          by (auto simp add: request_world_def date_now_def call_should_stop_def
              call_on_poll_def fetch_token_def log_event_def)
        have stop: "call_should_stop ss (snd (date_now ev wd))
                    = (False, snd (call_should_stop ss (snd (date_now ev wd))))"
          using f False by (simp add: call_should_stop_def date_now_def)
        have now: "date_now ev wd = (now_at ev (clock_reads wd), snd (date_now ev wd))"
          by (simp add: date_now_def)
        have body': "(case token_reply ev (token_requests wd) of
                  Reply_Ok tokens \<Rightarrow> Some (Inr (Some tokens), request_world ev ep dc op ss wd)
                | Rejected m \<Rightarrow> Some (Inl (External_Failure m), request_world ev ep dc op ss wd)
                | Reply_Fail sc err \<Rightarrow>
                    if err = Some ''authorization_pending'' \<or> err = Some ''slow_down''
                    then loop ev ep dc op ss pi dl
                           (set_timeout pi (request_world ev ep dc op ss wd))
                    else if err = Some ''expired_token''
                    then Some (Inl Authentication_Expired, request_world ev ep dc op ss wd)
                    else if err = Some ''access_denied''
                    then Some (Inl Authentication_Denied, request_world ev ep dc op ss wd)
                    else Some (Inl (Authentication_Failed (error_or_status err sc)),
                               request_world ev ep dc op ss wd)) = Some res"
          using body clock
          by (subst (asm) now, simp, subst (asm) stop, simp, subst (asm) rw, simp)
        show ?thesis
        proof (cases "token_reply ev (token_requests wd)")
          case (Reply_Ok tokens)
          with body' armed show ?thesis by (auto simp add: guard_final_def)
        next
          case (Rejected m)
          with body' armed show ?thesis by (auto simp add: guard_final_def)
        next
          case (Reply_Fail sc err)
          show ?thesis
          proof (cases "err = Some ''authorization_pending'' \<or> err = Some ''slow_down''")
            case True
            with body' Reply_Fail
            have "loop ev ep dc op ss pi dl
                    (set_timeout pi (request_world ev ep dc op ss wd)) = Some res"
              by auto
            from ih [OF this] some armed show ?thesis
              by (simp add: set_timeout_def log_event_def guard_run_append)
          next
            case False
            with body' armed Reply_Fail show ?thesis
              by (auto simp add: guard_final_def split: if_splits)
          qed
        qed
      qed
    qed
  qed
qed

subsection \<open>Pending twice, then a token\<close>

text \<open>
  C1, as stated, fails in two ways. With \<open>expires_in\<close> of 8 seconds and an
  interval of 5 seconds the endpoint would answer \<open>authorization_pending\<close>
  twice and then a token, but the third test of the loop reads the clock at
  10 seconds, past the deadline: the function returns \<open>null\<close> after two token
  requests. And a response that advertises the interval 0 is polled every 5
  seconds, since \<open>auth.interval || 5\<close> takes 0 for a missing interval.
\<close>

theorem poll_short_deadline_counterexample:
  "token_reply (example_env 8 pending_twice_then_token) 0
     = Reply_Fail 400 (Some ''authorization_pending'')
   \<and> token_reply (example_env 8 pending_twice_then_token) 1
     = Reply_Fail 400 (Some ''authorization_pending'')
   \<and> token_reply (example_env 8 pending_twice_then_token) 2 = Reply_Ok example_tokens
   \<and> pollForDeviceToken (example_env 8 pending_twice_then_token) (example_auth 8)
        False None world0
     = Some (Inr None,
         \<lparr> clock_reads = 4, config_fetches = 1, token_requests = 2, stop_calls = 0,
           trace = [Get_Config,
                    Post_Token ''https://auth.convex.dev/oauth/token'' ''device-code-1'',
                    Set_Timeout (Num 5000),
                    Post_Token ''https://auth.convex.dev/oauth/token'' ''device-code-1'',
                    Set_Timeout (Num 5000)],
           shown_toast = None \<rparr>)
   \<and> pollForDeviceToken (example_env 900 pending_twice_then_token)
        ((example_auth 900) \<lparr> interval := Some (Num 0) \<rparr>) False None world0
     = Some (Inr (Some example_tokens),
         \<lparr> clock_reads = 4, config_fetches = 1, token_requests = 3, stop_calls = 0,
           trace = [Get_Config,
                    Post_Token ''https://auth.convex.dev/oauth/token'' ''device-code-1'',
                    Set_Timeout (Num 5000),
                    Post_Token ''https://auth.convex.dev/oauth/token'' ''device-code-1'',
                    Set_Timeout (Num 5000),
                    Post_Token ''https://auth.convex.dev/oauth/token'' ''device-code-1''],
           shown_toast = None \<rparr>)"
  by code_simp

text \<open>
  C1, amended: when endpoint discovery succeeds, the deadline has not passed
  at the first three tests of the loop and the stop signal (if there is one)
  is false at the first three checks, and the token endpoint answers
  \<open>authorization_pending\<close> to the first two token requests and a token
  payload to the third, then \<open>pollForDeviceToken\<close> returns the payload of the
  third request after exactly 3 token requests, with one timer wait of the
  advertised interval (5 seconds when none, or the interval 0, is advertised)
  between consecutive requests, and the third request is the last effect of
  the run.
\<close>

theorem poll_pending_twice_then_token:
  assumes "config_reply e 0 = Reply_Ok config"
    and "js_less (Num (now_at e 1)) (js_add (Num (now_at e 0)) (js_mul (expires_in auth) (Num 1000)))"
    and "js_less (Num (now_at e 2)) (js_add (Num (now_at e 0)) (js_mul (expires_in auth) (Num 1000)))"
    and "js_less (Num (now_at e 3)) (js_add (Num (now_at e 0)) (js_mul (expires_in auth) (Num 1000)))"
    and "\<not> stop_answer shouldStop 0" and "\<not> stop_answer shouldStop 1"
    and "\<not> stop_answer shouldStop 2"
    and "token_reply e 0 = Reply_Fail s0 (Some ''authorization_pending'')"
    and "token_reply e 1 = Reply_Fail s1 (Some ''authorization_pending'')"
    and "token_reply e 2 = Reply_Ok tokens"
  shows "\<exists>w'. pollForDeviceToken e auth onPoll shouldStop world0 = Some (Inr (Some tokens), w')
     \<and> token_requests w' = 3
     \<and> trace w' =
         Get_Config #
         request_events onPoll shouldStop (token_endpoint config) (device_code auth)
         @ [Set_Timeout (js_mul (interval_or_default (interval auth)) (Num 1000))]
         @ request_events onPoll shouldStop (token_endpoint config) (device_code auth)
         @ [Set_Timeout (js_mul (interval_or_default (interval auth)) (Num 1000))]
         @ request_events onPoll shouldStop (token_endpoint config) (device_code auth)
     \<and> (interval auth = None \<or> interval auth = Some (Num 0) \<longrightarrow>
          js_mul (interval_or_default (interval auth)) (Num 1000) = Num 5000)
     \<and> (interval auth = Some (Num n) \<and> n \<noteq> 0 \<longrightarrow>
          js_mul (interval_or_default (interval auth)) (Num 1000) = Num (n * 1000))"
proof -
  let ?D = "js_add (Num (now_at e 0)) (js_mul (expires_in auth) (Num 1000))"
  let ?p = "js_mul (interval_or_default (interval auth)) (Num 1000)"
  let ?ep = "token_endpoint config"
  let ?dc = "device_code auth"
  let ?w = "polling_world onPoll shouldStop ?ep ?dc ?p"
  have c: "\<forall>i<2. js_less (Num (now_at e (Suc i))) ?D"
    using assms(2,3) by (simp add: less_Suc_eq numeral_2_eq_2)
  have s: "\<forall>i<2. \<not> stop_answer shouldStop i"
    using assms(5,6) by (simp add: less_Suc_eq numeral_2_eq_2)
  have r: "\<forall>i<2. is_retry (token_reply e i)"
    using assms(8,9) by (simp add: less_Suc_eq numeral_2_eq_2 is_retry_def)
  have ns: "\<not> stop_answer shouldStop (stop_count shouldStop 2)"
    using assms(5,7) by (cases shouldStop) (simp_all add: stop_count_def)
  have "pollForDeviceToken e auth onPoll shouldStop world0
        = poll_loop e ?ep ?dc onPoll shouldStop ?p ?D (?w 2)"
    using pollForDeviceToken_start [OF assms(1)] poll_loop_retries [OF c s r] by simp
  also have "\<dots> = Some (Inr (Some tokens), request_world e ?ep ?dc onPoll shouldStop (?w 2))"
    using assms(4,10) ns
    by (subst poll_loop_reply) (simp_all add: polling_world_def numeral_3_eq_3 numeral_2_eq_2)
  finally have run: "pollForDeviceToken e auth onPoll shouldStop world0
        = Some (Inr (Some tokens), request_world e ?ep ?dc onPoll shouldStop (?w 2))" .
  have "token_requests (request_world e ?ep ?dc onPoll shouldStop (?w 2)) = 3"
    by (simp add: request_world_polling [OF ns])
  moreover have "trace (request_world e ?ep ?dc onPoll shouldStop (?w 2)) =
         Get_Config # request_events onPoll shouldStop ?ep ?dc @ [Set_Timeout ?p]
         @ request_events onPoll shouldStop ?ep ?dc @ [Set_Timeout ?p]
         @ request_events onPoll shouldStop ?ep ?dc"
    unfolding request_world_polling [OF ns] by (simp add: polling_world_def numeral_2_eq_2)
  moreover have "interval auth = None \<or> interval auth = Some (Num 0) \<longrightarrow> ?p = Num 5000"
    by auto
  moreover have "interval auth = Some (Num n) \<and> n \<noteq> 0 \<longrightarrow> ?p = Num (n * 1000)" by simp
  ultimately show ?thesis using run by simp
qed

theorem poll_pending_twice_then_token_witness:
  "\<exists>w'. pollForDeviceToken (example_env 900 pending_twice_then_token) (example_auth 900)
           False None world0 = Some (Inr (Some example_tokens), w')
     \<and> token_requests w' = 3
     \<and> trace w' =
         [Get_Config,
          Post_Token ''https://auth.convex.dev/oauth/token'' ''device-code-1'',
          Set_Timeout (Num 5000),
          Post_Token ''https://auth.convex.dev/oauth/token'' ''device-code-1'',
          Set_Timeout (Num 5000),
          Post_Token ''https://auth.convex.dev/oauth/token'' ''device-code-1'']"
  using poll_pending_twice_then_token
    [of "example_env 900 pending_twice_then_token" example_config "example_auth 900"
        None 400 400 example_tokens False 5]
  by (simp add: example_env_def example_auth_def example_config_def clock_5s_def
      pending_twice_then_token_def stop_answer_def request_events_def)

subsection \<open>The deadline\<close>

lemma poll_deadline_run:
  assumes "config_reply e 0 = Reply_Ok config"
    and "\<forall>i<k. js_less (Num (now_at e (Suc i)))
                 (js_add (Num (now_at e 0)) (js_mul (expires_in auth) (Num 1000)))"
    and "\<not> js_less (Num (now_at e (Suc k)))
                 (js_add (Num (now_at e 0)) (js_mul (expires_in auth) (Num 1000)))"
    and "\<forall>i<k. \<not> stop_answer shouldStop i"
    and "\<forall>i<k. is_retry (token_reply e i)"
  shows "pollForDeviceToken e auth onPoll shouldStop world0
         = Some (Inr None,
                 (polling_world onPoll shouldStop (token_endpoint config) (device_code auth)
                    (js_mul (interval_or_default (interval auth)) (Num 1000)) k)
                 \<lparr> clock_reads := Suc (Suc k) \<rparr>)"
proof -
  let ?D = "js_add (Num (now_at e 0)) (js_mul (expires_in auth) (Num 1000))"
  let ?p = "js_mul (interval_or_default (interval auth)) (Num 1000)"
  let ?w = "polling_world onPoll shouldStop (token_endpoint config) (device_code auth) ?p"
  have "pollForDeviceToken e auth onPoll shouldStop world0
        = poll_loop e (token_endpoint config) (device_code auth) onPoll shouldStop ?p ?D (?w k)"
    using pollForDeviceToken_start [OF assms(1)] poll_loop_retries [OF assms(2,4,5)] by simp
  also have "\<dots> = Some (Inr None, (?w k) \<lparr> clock_reads := Suc (clock_reads (?w k)) \<rparr>)"
    using assms(3) by (intro poll_loop_deadline) (simp add: polling_world_def)
  finally show ?thesis by (simp add: polling_world_def)
qed

text \<open>
  C2, as stated, fails: when every reply carries \<open>authorization_pending\<close>
  until the deadline, \<open>pollForDeviceToken\<close> leaves the loop and returns
  \<open>null\<close>; it raises nothing.
\<close>

theorem poll_deadline_counterexample:
  "token_reply (example_env 8 always_pending) 0 = Reply_Fail 400 (Some ''authorization_pending'')
   \<and> token_reply (example_env 8 always_pending) 1 = Reply_Fail 400 (Some ''authorization_pending'')
   \<and> pollForDeviceToken (example_env 8 always_pending) (example_auth 8) False None world0
     = Some (Inr None,
         \<lparr> clock_reads = 4, config_fetches = 1, token_requests = 2, stop_calls = 0,
           trace = [Get_Config,
                    Post_Token ''https://auth.convex.dev/oauth/token'' ''device-code-1'',
                    Set_Timeout (Num 5000),
                    Post_Token ''https://auth.convex.dev/oauth/token'' ''device-code-1'',
                    Set_Timeout (Num 5000)],
           shown_toast = None \<rparr>)"
  by code_simp

text \<open>
  C2, amended: in every run in which discovery succeeds, no stop is signalled,
  the deadline has not passed at the first \<open>k\<close> tests of the loop, every one
  of the \<open>k\<close> replies carries \<open>authorization_pending\<close> or \<open>slow_down\<close>, and
  the deadline has passed at the next test, \<open>pollForDeviceToken\<close> terminates
  at that test and returns \<open>null\<close> after exactly \<open>k\<close> token requests, each
  followed by one wait; it raises no error.
\<close>

theorem poll_deadline_returns_null:
  assumes "config_reply e 0 = Reply_Ok config"
    and "\<forall>i<k. js_less (Num (now_at e (Suc i)))
                 (js_add (Num (now_at e 0)) (js_mul (expires_in auth) (Num 1000)))"
    and "\<not> js_less (Num (now_at e (Suc k)))
                 (js_add (Num (now_at e 0)) (js_mul (expires_in auth) (Num 1000)))"
    and "\<forall>i<k. \<not> stop_answer shouldStop i"
    and "\<forall>i<k. is_retry (token_reply e i)"
  shows "\<exists>w'. pollForDeviceToken e auth onPoll shouldStop world0 = Some (Inr None, w')
     \<and> token_requests w' = k
     \<and> trace w' =
         Get_Config #
         concat (replicate k
           (request_events onPoll shouldStop (token_endpoint config) (device_code auth)
            @ [Set_Timeout (js_mul (interval_or_default (interval auth)) (Num 1000))]))"
  using poll_deadline_run [OF assms] by (simp add: polling_world_def)

theorem poll_deadline_returns_null_witness:
  "\<exists>w'. pollForDeviceToken (example_env 8 always_pending) (example_auth 8) False None world0
          = Some (Inr None, w')
     \<and> token_requests w' = 2"
  using poll_deadline_returns_null
    [of "example_env 8 always_pending" example_config 2 "example_auth 8" None False]
  by (auto simp add: example_env_def example_auth_def example_config_def clock_5s_def
      always_pending_def stop_answer_def is_retry_def less_Suc_eq numeral_2_eq_2)

subsection \<open>The stop signal\<close>

lemma poll_stop_first_run:
  assumes "config_reply e 0 = Reply_Ok config" and "f 0"
  shows "pollForDeviceToken e auth onPoll (Some f) world0
         = Some (Inr None,
             \<lparr> clock_reads = 2, config_fetches = 1, token_requests = 0,
               stop_calls = (if js_less (Num (now_at e 1))
                                  (js_add (Num (now_at e 0)) (js_mul (expires_in auth) (Num 1000)))
                             then 1 else 0),
               trace = Get_Config #
                 (if js_less (Num (now_at e 1))
                       (js_add (Num (now_at e 0)) (js_mul (expires_in auth) (Num 1000)))
                  then [Stop_Check True] else []),
               shown_toast = None \<rparr>)"
proof (cases "js_less (Num (now_at e 1))
                (js_add (Num (now_at e 0)) (js_mul (expires_in auth) (Num 1000)))")
  case True
  then show ?thesis
    unfolding pollForDeviceToken_start [OF assms(1)]
    by (subst poll_loop_stopped)
       (simp_all add: polling_world_def stop_answer_def stop_count_def assms(2) log_event_def)
next
  case False
  then show ?thesis
    unfolding pollForDeviceToken_start [OF assms(1)]
    by (subst poll_loop_deadline) (simp_all add: polling_world_def stop_count_def)
qed

lemma poll_guarded_run:
  assumes "pollForDeviceToken e auth onPoll (Some f) world0 = Some (r, w')"
  shows "guard_run (trace w') = Idle \<or> (guard_run (trace w') = Stopped \<and> r = Inr None)"
proof (cases "config_reply e 0")
  case (Reply_Ok config)
  from assms have "poll_loop e (token_endpoint config) (device_code auth) onPoll (Some f)
             (js_mul (interval_or_default (interval auth)) (Num 1000))
             (js_add (Num (now_at e 0)) (js_mul (expires_in auth) (Num 1000)))
             (polling_world onPoll (Some f) (token_endpoint config) (device_code auth)
                (js_mul (interval_or_default (interval auth)) (Num 1000)) 0) = Some (r, w')"
    by (simp add: pollForDeviceToken_start [OF Reply_Ok])
  from poll_loop_guarded [OF this] show ?thesis
    by (simp add: polling_world_def guard_run_def guard_final_def)
next
  case (Reply_Fail sc body)
  with assms show ?thesis
    by (auto simp add: pollForDeviceToken_def discoverAuthEndpoints_def fetch_config_def
        world0_def log_event_def guard_run_def)
next
  case (Rejected m)
  with assms show ?thesis
    by (auto simp add: pollForDeviceToken_def discoverAuthEndpoints_def fetch_config_def
        world0_def log_event_def guard_run_def)
qed

text \<open>
  C3, as stated, fails: with the stop signal true from the start the function
  still fetches the well-known configuration, a network call, before the loop
  checks the signal.
\<close>

theorem poll_stop_discovery_counterexample:
  "pollForDeviceToken (example_env 900 always_pending) (example_auth 900) False
     (Some always_stop) world0
   = Some (Inr None,
       \<lparr> clock_reads = 2, config_fetches = 1, token_requests = 0, stop_calls = 1,
         trace = [Get_Config, Stop_Check True], shown_toast = None \<rparr>)"
  by code_simp

text \<open>
  C3, amended: if endpoint discovery succeeds and the stop signal is true at
  its first check, \<open>pollForDeviceToken\<close> returns \<open>null\<close> without any token
  request; its only network call is the discovery that precedes the loop. In
  every run that returns, the stop signal is checked once per iteration,
  before the token request of that iteration, nothing follows a check that
  answered true, and such a run returns \<open>null\<close> rather than an error.
\<close>

theorem poll_stop_signal:
  "(config_reply e 0 = Reply_Ok config \<and> f 0 \<longrightarrow>
      (\<exists>w1. pollForDeviceToken e auth onPoll (Some f) world0 = Some (Inr None, w1)
         \<and> token_requests w1 = 0 \<and> config_fetches w1 = 1
         \<and> trace w1 = Get_Config #
             (if js_less (Num (now_at e 1))
                   (js_add (Num (now_at e 0)) (js_mul (expires_in auth) (Num 1000)))
              then [Stop_Check True] else [])))
   \<and> (pollForDeviceToken e auth onPoll (Some f) world0 = Some (r, w') \<longrightarrow>
        guard_run (trace w') = Idle \<or> (guard_run (trace w') = Stopped \<and> r = Inr None))"
  using poll_stop_first_run [of e config f auth onPoll] poll_guarded_run [of e auth onPoll f r w']
  by auto

theorem poll_stop_signal_witness:
  "(\<exists>w1. pollForDeviceToken (example_env 900 always_pending) (example_auth 900) True
           (Some always_stop) world0 = Some (Inr None, w1)
        \<and> token_requests w1 = 0 \<and> trace w1 = [Get_Config, Stop_Check True])
   \<and> guard_run [Get_Config, Stop_Check False, On_Poll,
                 Post_Token ''https://auth.convex.dev/oauth/token'' ''device-code-1'',
                 Set_Timeout (Num 5000), Stop_Check True] = Stopped"
proof -
  have run: "pollForDeviceToken (example_env 900 always_pending) (example_auth 900) True
               (Some (\<lambda>k. k = 1)) world0
             = Some (Inr None,
                 \<lparr> clock_reads = 3, config_fetches = 1, token_requests = 1, stop_calls = 2,
                   trace = [Get_Config, Stop_Check False, On_Poll,
                            Post_Token ''https://auth.convex.dev/oauth/token'' ''device-code-1'',
                            Set_Timeout (Num 5000), Stop_Check True],
                   shown_toast = None \<rparr>)"
    by code_simp
  have g: "guard_run [Get_Config, Stop_Check False, On_Poll,
                 Post_Token ''https://auth.convex.dev/oauth/token'' ''device-code-1'',
                 Set_Timeout (Num 5000), Stop_Check True] \<noteq> Idle"
    by (simp add: guard_run_def)
  show ?thesis
    using poll_stop_signal [of "example_env 900 always_pending" example_config always_stop
        "example_auth 900" True "Inr None"
        "\<lparr> clock_reads = 2, config_fetches = 1, token_requests = 0, stop_calls = 1,
           trace = [Get_Config, Stop_Check True], shown_toast = None \<rparr>"]
      poll_stop_signal [of "example_env 900 always_pending" example_config "\<lambda>k. k = 1"
        "example_auth 900" True "Inr None"
        "\<lparr> clock_reads = 3, config_fetches = 1, token_requests = 1, stop_calls = 2,
           trace = [Get_Config, Stop_Check False, On_Poll,
                    Post_Token ''https://auth.convex.dev/oauth/token'' ''device-code-1'',
                    Set_Timeout (Num 5000), Stop_Check True],
           shown_toast = None \<rparr>"]
      run g
    by (auto simp add: example_env_def example_auth_def example_config_def clock_5s_def
        always_stop_def)
qed

subsection \<open>Fatal replies\<close>

lemma poll_error_run:
  assumes "config_reply e 0 = Reply_Ok config"
    and "\<forall>i<k. is_retry (token_reply e i)"
    and "\<forall>i<Suc k. js_less (Num (now_at e (Suc i)))
                 (js_add (Num (now_at e 0)) (js_mul (expires_in auth) (Num 1000)))"
    and "\<forall>i<Suc k. \<not> stop_answer shouldStop i"
    and "token_reply e k = Reply_Fail sc (Some err)"
    and "err \<noteq> ''authorization_pending''" and "err \<noteq> ''slow_down''"
  shows "pollForDeviceToken e auth onPoll shouldStop world0
         = Some (Inl (if err = ''expired_token'' then Authentication_Expired
                      else if err = ''access_denied'' then Authentication_Denied
                      else Authentication_Failed (error_or_status (Some err) sc)),
                 (polling_world onPoll shouldStop (token_endpoint config) (device_code auth)
                    (js_mul (interval_or_default (interval auth)) (Num 1000)) k)
                 \<lparr> clock_reads := Suc (Suc k), token_requests := Suc k,
                   stop_calls := stop_count shouldStop (Suc k),
                   trace := trace (polling_world onPoll shouldStop (token_endpoint config)
                                     (device_code auth)
                                     (js_mul (interval_or_default (interval auth)) (Num 1000)) k)
                            @ request_events onPoll shouldStop (token_endpoint config)
                                (device_code auth) \<rparr>)"
proof -
  let ?D = "js_add (Num (now_at e 0)) (js_mul (expires_in auth) (Num 1000))"
  let ?p = "js_mul (interval_or_default (interval auth)) (Num 1000)"
  let ?ep = "token_endpoint config"
  let ?dc = "device_code auth"
  let ?w = "polling_world onPoll shouldStop ?ep ?dc ?p"
  have c: "\<forall>i<k. js_less (Num (now_at e (Suc i))) ?D" using assms(3) by simp
  have s: "\<forall>i<k. \<not> stop_answer shouldStop i" using assms(4) by simp
  have ns: "\<not> stop_answer shouldStop (stop_count shouldStop k)"
    using assms(4) by (cases shouldStop) (simp_all add: stop_count_def stop_answer_def)
  have ck: "js_less (Num (now_at e (clock_reads (?w k)))) ?D"
    using assms(3) by (simp add: polling_world_def)
  have nsk: "\<not> stop_answer shouldStop (stop_calls (?w k))"
    using ns by (simp add: polling_world_def)
  have rk: "token_reply e (token_requests (?w k)) = Reply_Fail sc (Some err)"
    using assms(5) by (simp add: polling_world_def)
  have "pollForDeviceToken e auth onPoll shouldStop world0
        = poll_loop e ?ep ?dc onPoll shouldStop ?p ?D (?w k)"
    using pollForDeviceToken_start [OF assms(1)] poll_loop_retries [OF c s assms(2)] by simp
  also have "\<dots> = Some (Inl (if err = ''expired_token'' then Authentication_Expired
                      else if err = ''access_denied'' then Authentication_Denied
                      else Authentication_Failed (error_or_status (Some err) sc)),
                 request_world e ?ep ?dc onPoll shouldStop (?w k))"
    using assms(6,7) by (subst poll_loop_reply [OF ck nsk]) (simp add: rk)
  finally show ?thesis by (simp add: request_world_polling [OF ns])
qed

text \<open>
  C4: whenever the reply to a token request, the \<open>k\<close>-th of the run after
  \<open>k\<close> replies that made the loop wait, carries the error \<open>expired_token\<close>,
  \<open>pollForDeviceToken\<close> throws the error "Authentication expired. Please try
  again." and that request is the last one: \<open>k + 1\<close> token requests in all,
  the last effect of the run. With \<open>access_denied\<close> it throws
  "Authentication was denied." in the same way.
\<close>

theorem poll_expired_or_denied:
  assumes "config_reply e 0 = Reply_Ok config"
    and "\<forall>i<k. is_retry (token_reply e i)"
    and "\<forall>i<Suc k. js_less (Num (now_at e (Suc i)))
                 (js_add (Num (now_at e 0)) (js_mul (expires_in auth) (Num 1000)))"
    and "\<forall>i<Suc k. \<not> stop_answer shouldStop i"
  shows "(token_reply e k = Reply_Fail sc (Some ''expired_token'') \<longrightarrow>
           (\<exists>w'. pollForDeviceToken e auth onPoll shouldStop world0
                    = Some (Inl Authentication_Expired, w')
              \<and> token_requests w' = Suc k
              \<and> trace w' =
                  Get_Config #
                  concat (replicate k
                    (request_events onPoll shouldStop (token_endpoint config) (device_code auth)
                     @ [Set_Timeout (js_mul (interval_or_default (interval auth)) (Num 1000))]))
                  @ request_events onPoll shouldStop (token_endpoint config) (device_code auth)))
     \<and> (token_reply e k = Reply_Fail sc (Some ''access_denied'') \<longrightarrow>
           (\<exists>w'. pollForDeviceToken e auth onPoll shouldStop world0
                    = Some (Inl Authentication_Denied, w')
              \<and> token_requests w' = Suc k
              \<and> trace w' =
                  Get_Config #
                  concat (replicate k
                    (request_events onPoll shouldStop (token_endpoint config) (device_code auth)
                     @ [Set_Timeout (js_mul (interval_or_default (interval auth)) (Num 1000))]))
                  @ request_events onPoll shouldStop (token_endpoint config) (device_code auth)))"
proof (intro conjI impI)
  assume "token_reply e k = Reply_Fail sc (Some ''expired_token'')"
  from poll_error_run [OF assms this] show "\<exists>w'. pollForDeviceToken e auth onPoll shouldStop world0
                    = Some (Inl Authentication_Expired, w')
              \<and> token_requests w' = Suc k
              \<and> trace w' =
                  Get_Config #
                  concat (replicate k
                    (request_events onPoll shouldStop (token_endpoint config) (device_code auth)
                     @ [Set_Timeout (js_mul (interval_or_default (interval auth)) (Num 1000))]))
                  @ request_events onPoll shouldStop (token_endpoint config) (device_code auth)"
    by (simp add: polling_world_def)
next
  assume "token_reply e k = Reply_Fail sc (Some ''access_denied'')"
  from poll_error_run [OF assms this] show "\<exists>w'. pollForDeviceToken e auth onPoll shouldStop world0
                    = Some (Inl Authentication_Denied, w')
              \<and> token_requests w' = Suc k
              \<and> trace w' =
                  Get_Config #
                  concat (replicate k
                    (request_events onPoll shouldStop (token_endpoint config) (device_code auth)
                     @ [Set_Timeout (js_mul (interval_or_default (interval auth)) (Num 1000))]))
                  @ request_events onPoll shouldStop (token_endpoint config) (device_code auth)"
    by (simp add: polling_world_def)
qed

theorem poll_expired_or_denied_witness:
  "(\<exists>w'. pollForDeviceToken (example_env 900 (pending_then_error ''expired_token''))
            (example_auth 900) False None world0 = Some (Inl Authentication_Expired, w')
        \<and> token_requests w' = 3)
   \<and> (\<exists>w'. pollForDeviceToken (example_env 900 (pending_then_error ''access_denied''))
            (example_auth 900) False None world0 = Some (Inl Authentication_Denied, w')
        \<and> token_requests w' = 3)"
  using poll_expired_or_denied
    [of "example_env 900 (pending_then_error ''expired_token'')" example_config 2
        "example_auth 900" None 400 False]
    poll_expired_or_denied
    [of "example_env 900 (pending_then_error ''access_denied'')" example_config 2
        "example_auth 900" None 400 False]
  by (auto simp add: example_env_def example_auth_def example_config_def clock_5s_def
      pending_then_error_def stop_answer_def is_retry_def less_Suc_eq numeral_2_eq_2
      numeral_3_eq_3)

section \<open>Properties of the full flow\<close>

text \<open>
  In \<open>authenticate\<close> the only write to storage is \<open>saveSession\<close>, the last
  step of the \<open>try\<close> block; storage writes themselves do not fail in this
  model.
\<close>

lemma authenticate_try_failure:
  assumes "authenticate_try e w st = Some (Inl err, w', st')"
  shows "st' = st"
  using assms
  by (auto simp add: authenticate_try_def Let_def
      split: prod.splits sum.splits option.splits)

text \<open>
  C6: every run of \<open>authenticate\<close> that ends in an error, whichever step
  raised it (endpoint discovery, the device authorization request, opening
  the browser, polling, a poll without token, the exchange), leaves the
  storage as it was: no key is written.
\<close>

theorem authenticate_failure_keeps_storage:
  assumes "authenticate e w st = Some (Inl err, w', st')"
  shows "st' = st"
  using assms authenticate_try_failure
  by (auto simp add: authenticate_def Let_def split: prod.splits sum.splits option.splits)

theorem authenticate_failure_keeps_storage_witness:
  "\<exists>w'. authenticate (example_env 8 always_pending) world0 example_storage
          = Some (Inl Expired_Or_Cancelled, w', example_storage)"
proof -
  have "map_option fst (authenticate (example_env 8 always_pending) world0 example_storage)
        = Some (Inl Expired_Or_Cancelled)"
    by code_simp
  then obtain w' st' where run:
    "authenticate (example_env 8 always_pending) world0 example_storage
       = Some (Inl Expired_Or_Cancelled, w', st')"
    by (cases "authenticate (example_env 8 always_pending) world0 example_storage") auto
  from authenticate_failure_keeps_storage [OF run] run show ?thesis by simp
qed

end
